theory Spec2Isabelle
  imports Complex_Main "HOL-Library.Multiset"
begin

section \<open>JavaScript numbers\<close>

text \<open>
  The program computes on JavaScript numbers. They are modelled as the exact reals
  extended by the special values of the language: \<open>NaN\<close>, \<open>+Infinity\<close>, \<open>-Infinity\<close>
  and the negative zero. \<open>Fin 0\<close> is \<open>+0\<close>. The arithmetic follows the language's
  rules for the special values and the sign of zero; the rounding of a finite result
  to a double, and overflow to an infinity, are not modelled.
\<close>

datatype jsnum = NaN | PosInf | NegInf | NegZero | Fin real

fun isNeg :: "jsnum \<Rightarrow> bool" where
  "isNeg NegInf = True"
| "isNeg NegZero = True"
| "isNeg (Fin r) = (r < 0)"
| "isNeg _ = False"

fun isInf :: "jsnum \<Rightarrow> bool" where
  "isInf PosInf = True"
| "isInf NegInf = True"
| "isInf _ = False"

fun isZero :: "jsnum \<Rightarrow> bool" where
  "isZero NegZero = True"
| "isZero (Fin r) = (r = 0)"
| "isZero _ = False"

fun isFinite :: "jsnum \<Rightarrow> bool" where
  "isFinite NegZero = True"
| "isFinite (Fin r) = True"
| "isFinite _ = False"

text \<open>The real value of a finite number (both zeros are 0).\<close>

fun val :: "jsnum \<Rightarrow> real" where
  "val (Fin r) = r"
| "val _ = 0"

definition signedZero :: "bool \<Rightarrow> jsnum" where
  "signedZero neg = (if neg then NegZero else Fin 0)"

definition signedInf :: "bool \<Rightarrow> jsnum" where
  "signedInf neg = (if neg then NegInf else PosInf)"

text \<open>Unary minus.\<close>

fun jsneg :: "jsnum \<Rightarrow> jsnum" where
  "jsneg NaN = NaN"
| "jsneg PosInf = NegInf"
| "jsneg NegInf = PosInf"
| "jsneg NegZero = Fin 0"
| "jsneg (Fin r) = (if r = 0 then NegZero else Fin (- r))"

text \<open>\<open>a + b\<close>: the sum of two zeros is \<open>-0\<close> only when both are; \<open>r + (-r)\<close> is \<open>+0\<close>.\<close>

fun jsadd :: "jsnum \<Rightarrow> jsnum \<Rightarrow> jsnum" where
  "jsadd NaN b = NaN"
| "jsadd a NaN = NaN"
| "jsadd PosInf NegInf = NaN"
| "jsadd NegInf PosInf = NaN"
| "jsadd PosInf b = PosInf"
| "jsadd a PosInf = PosInf"
| "jsadd NegInf b = NegInf"
| "jsadd a NegInf = NegInf"
| "jsadd NegZero b = b"
| "jsadd a NegZero = a"
| "jsadd (Fin a) (Fin b) = Fin (a + b)"

text \<open>\<open>a - b\<close> is \<open>a + (-b)\<close>.\<close>

definition jssub :: "jsnum \<Rightarrow> jsnum \<Rightarrow> jsnum" where
  "jssub a b = jsadd a (jsneg b)"

text \<open>\<open>a * b\<close>.\<close>

definition jsmul :: "jsnum \<Rightarrow> jsnum \<Rightarrow> jsnum" where
  "jsmul a b =
     (if a = NaN \<or> b = NaN then NaN
      else if (isInf a \<and> isZero b) \<or> (isZero a \<and> isInf b) then NaN
      else if isInf a \<or> isInf b then signedInf (isNeg a \<noteq> isNeg b)
      else if isZero a \<or> isZero b then signedZero (isNeg a \<noteq> isNeg b)
      else Fin (val a * val b))"

text \<open>
  \<open>a / b\<close> never raises: a non-zero number divided by a zero is the infinity whose
  sign is the product of the signs, and \<open>0 / 0\<close> is \<open>NaN\<close>.
\<close>

definition jsdiv :: "jsnum \<Rightarrow> jsnum \<Rightarrow> jsnum" where
  "jsdiv a b =
     (if a = NaN \<or> b = NaN then NaN
      else if (isInf a \<and> isInf b) \<or> (isZero a \<and> isZero b) then NaN
      else if isInf a \<or> isZero b then signedInf (isNeg a \<noteq> isNeg b)
      else if isZero a \<or> isInf b then signedZero (isNeg a \<noteq> isNeg b)
      else Fin (val a / val b))"

text \<open>Rounding towards zero, and \<open>a % b\<close>: the remainder has the sign of the dividend.\<close>

definition trunc :: "real \<Rightarrow> real" where
  "trunc q = (if 0 \<le> q then of_int \<lfloor>q\<rfloor> else of_int \<lceil>q\<rceil>)"

definition jsrem :: "jsnum \<Rightarrow> jsnum \<Rightarrow> jsnum" where
  "jsrem a b =
     (if a = NaN \<or> b = NaN \<or> isInf a \<or> isZero b then NaN
      else if isInf b \<or> isZero a then a
      else (let r = val a - val b * trunc (val a / val b)
            in if r = 0 then signedZero (isNeg a) else Fin r))"

text \<open>\<open>a > b\<close>: false as soon as one side is \<open>NaN\<close>.\<close>

definition jsgt :: "jsnum \<Rightarrow> jsnum \<Rightarrow> bool" where
  "jsgt a b =
     (a \<noteq> NaN \<and> b \<noteq> NaN \<and>
      (case a of
         PosInf \<Rightarrow> b \<noteq> PosInf
       | NegInf \<Rightarrow> False
       | _ \<Rightarrow> b = NegInf \<or> (isFinite b \<and> val b < val a)))"

text \<open>\<open>a === b\<close> on numbers: \<open>NaN\<close> equals nothing, the two zeros are equal.\<close>

definition strictEq :: "jsnum \<Rightarrow> jsnum \<Rightarrow> bool" where
  "strictEq a b = (a \<noteq> NaN \<and> b \<noteq> NaN \<and> (a = b \<or> (isZero a \<and> isZero b)))"

text \<open>
  The same number, as \<open>SameValueZero\<close> of the language has it: \<open>===\<close> made reflexive
  on \<open>NaN\<close>.
\<close>

definition sameValueZero :: "jsnum \<Rightarrow> jsnum \<Rightarrow> bool" where
  "sameValueZero a b = (a = b \<or> (isZero a \<and> isZero b))"

section \<open>Data model\<close>

text \<open>\<open>class Vec\<close>: the fields \<open>x\<close> and \<open>y\<close>, the method \<open>add\<close> and the static \<open>Zero\<close>.\<close>

record Vec =
  vec_x :: jsnum
  vec_y :: jsnum

definition Vec_new :: "jsnum \<Rightarrow> jsnum \<Rightarrow> Vec" where
  "Vec_new a b = \<lparr>vec_x = a, vec_y = b\<rparr>"

definition Vec_add :: "Vec \<Rightarrow> Vec \<Rightarrow> Vec" where
  "Vec_add this b = Vec_new (jsadd (vec_x this) (vec_x b)) (jsadd (vec_y this) (vec_y b))"

definition Vec_Zero :: Vec where
  "Vec_Zero = Vec_new (Fin 0) (Fin 0)"

text \<open>
  \<open>type MusicNote\<close>. The fields read from a chart row are declared \<open>string\<close>; a row
  with fewer than six fields leaves the missing ones \<open>undefined\<close>, which is \<open>None\<close>
  here. The fields \<open>id\<close> and \<open>end\<close> carry a prime, their names being taken.
\<close>

record MusicNote =
  id' :: jsnum
  viewType :: string
  user_played :: "string option"
  instrument_name :: "string option"
  velocity :: "string option"
  pitch :: "string option"
  start :: "string option"
  end' :: string
  pos :: Vec
  color :: string

text \<open>\<open>type State\<close>. The field \<open>notes\<close> carries a prime, the name being a keyword.\<close>

record State =
  gameEnd :: bool
  notes' :: "MusicNote list"
  time :: jsnum
  score :: jsnum
  objCount :: jsnum
  exit :: "MusicNote list"

definition STROKE_LEN :: jsnum where
  "STROKE_LEN = Fin 350"


section \<open>Strings and the conversion of a string to a number\<close>

text \<open>
  A string is the list of its code units; the model has the code units below 256.
  \<open>s.split(sep)\<close> for a separator of one character: the pieces between the
  separators, empty pieces included, so the result is never empty.
\<close>

fun String_split :: "char \<Rightarrow> string \<Rightarrow> string list" where
  "String_split sep [] = [[]]"
| "String_split sep (c # cs) =
     (if c = sep then [] # String_split sep cs
      else (case String_split sep cs of
              w # ws \<Rightarrow> (c # w) # ws
            | [] \<Rightarrow> [[c]]))"

text \<open>
  \<open>Number(s)\<close> on a string is \<open>StringToNumber\<close> of the language: white space is
  trimmed, the empty string is \<open>+0\<close>, a hexadecimal, octal or binary literal
  carries no sign, a decimal literal has an optional sign, digits with an optional
  fraction, and an optional exponent; \<open>Infinity\<close> is a literal; anything else is
  \<open>NaN\<close>. The value is the exact value of the literal.
\<close>

definition isStrWhiteSpace :: "char \<Rightarrow> bool" where
  "isStrWhiteSpace c =
     (c \<in> set [CHR 0x09, CHR 0x0A, CHR 0x0B, CHR 0x0C, CHR 0x0D, CHR 0x20, CHR 0xA0])"

definition trimString :: "string \<Rightarrow> string" where
  "trimString s = rev (dropWhile isStrWhiteSpace (rev (dropWhile isStrWhiteSpace s)))"

definition digitValue :: "char \<Rightarrow> nat option" where
  "digitValue = map_of
     [(CHR ''0'', 0), (CHR ''1'', 1), (CHR ''2'', 2), (CHR ''3'', 3), (CHR ''4'', 4),
      (CHR ''5'', 5), (CHR ''6'', 6), (CHR ''7'', 7), (CHR ''8'', 8), (CHR ''9'', 9),
      (CHR ''a'', 10), (CHR ''b'', 11), (CHR ''c'', 12), (CHR ''d'', 13), (CHR ''e'', 14),
      (CHR ''f'', 15), (CHR ''A'', 10), (CHR ''B'', 11), (CHR ''C'', 12), (CHR ''D'', 13),
      (CHR ''E'', 14), (CHR ''F'', 15)]"

text \<open>The value of a non-empty string of digits of the base; \<open>None\<close> for anything else.\<close>

definition digitsValue :: "nat \<Rightarrow> string \<Rightarrow> nat option" where
  "digitsValue base ds =
     (if ds = [] then None
      else foldl (\<lambda>acc c. case (acc, digitValue c) of
                            (Some a, Some d) \<Rightarrow> if d < base then Some (a * base + d) else None
                          | _ \<Rightarrow> None)
                 (Some 0) ds)"

text \<open>The part before the first character that satisfies \<open>p\<close>, and the part after it, if any.\<close>

definition splitFirst :: "(char \<Rightarrow> bool) \<Rightarrow> string \<Rightarrow> string \<times> string option" where
  "splitFirst p s =
     (takeWhile (\<lambda>c. \<not> p c) s,
      case dropWhile (\<lambda>c. \<not> p c) s of [] \<Rightarrow> None | c # r \<Rightarrow> Some r)"

definition SignedInteger :: "string \<Rightarrow> int option" where
  "SignedInteger s =
     (if s \<noteq> [] \<and> hd s = CHR ''+'' then map_option int (digitsValue 10 (tl s))
      else if s \<noteq> [] \<and> hd s = CHR ''-'' then map_option (\<lambda>n. - int n) (digitsValue 10 (tl s))
      else map_option int (digitsValue 10 s))"

definition scale10 :: "real \<Rightarrow> int \<Rightarrow> real" where
  "scale10 m e = (if 0 \<le> e then m * 10 ^ nat e else m / 10 ^ nat (- e))"

definition StrUnsignedDecimalLiteral :: "string \<Rightarrow> jsnum" where
  "StrUnsignedDecimalLiteral s =
     (if s = ''Infinity'' then PosInf
      else
        let (m, ex) = splitFirst (\<lambda>c. c = CHR ''e'' \<or> c = CHR ''E'') s;
            (ip, fp) = splitFirst (\<lambda>c. c = CHR ''.'') m;
            fd = (case fp of None \<Rightarrow> [] | Some f \<Rightarrow> f)
        in case (digitsValue 10 (ip @ fd),
                 case ex of None \<Rightarrow> Some 0 | Some x \<Rightarrow> SignedInteger x) of
             (Some n, Some e) \<Rightarrow> Fin (scale10 (real n) (e - int (length fd)))
           | _ \<Rightarrow> NaN)"

definition NonDecimalIntegerLiteral :: "string \<Rightarrow> nat option" where
  "NonDecimalIntegerLiteral t =
     (case t of
        c0 # c1 # r \<Rightarrow>
          if c0 \<noteq> CHR ''0'' then None
          else if c1 = CHR ''x'' \<or> c1 = CHR ''X'' then digitsValue 16 r
          else if c1 = CHR ''o'' \<or> c1 = CHR ''O'' then digitsValue 8 r
          else if c1 = CHR ''b'' \<or> c1 = CHR ''B'' then digitsValue 2 r
          else None
      | _ \<Rightarrow> None)"

definition StringToNumber :: "string \<Rightarrow> jsnum" where
  "StringToNumber s =
     (let t = trimString s in
      if t = [] then Fin 0
      else case NonDecimalIntegerLiteral t of
             Some n \<Rightarrow> Fin (real n)
           | None \<Rightarrow>
               if hd t = CHR ''+'' then StrUnsignedDecimalLiteral (tl t)
               else if hd t = CHR ''-'' then jsneg (StrUnsignedDecimalLiteral (tl t))
               else StrUnsignedDecimalLiteral t)"

text \<open>\<open>Number(v)\<close> for a string or \<open>undefined\<close>: \<open>Number(undefined)\<close> is \<open>NaN\<close>.\<close>

definition Number :: "string option \<Rightarrow> jsnum" where
  "Number v = (case v of None \<Rightarrow> NaN | Some s \<Rightarrow> StringToNumber s)"

section \<open>The program\<close>

text \<open>
  \<open>pitchToColor\<close>: a \<open>switch\<close> on \<open>Number(pitch) % 4\<close>, whose cases compare with
  \<open>===\<close>.
\<close>

definition pitchToColor :: "string option \<Rightarrow> string" where
  "pitchToColor p =
     (let v = jsrem (Number p) (Fin 4) in
      if strictEq v (Fin 0) then ''url(#greenGradient)''
      else if strictEq v (Fin 1) then ''url(#redGradient)''
      else if strictEq v (Fin 2) then ''url(#blueGradient)''
      else ''url(#yellowGradient)'')"

text \<open>\<open>not\<close>: the negation of a predicate.\<close>

definition not :: "('a \<Rightarrow> bool) \<Rightarrow> 'a \<Rightarrow> bool" where
  "not f x = (\<not> f x)"

text \<open>
  \<open>class Tick implements Action\<close>, the only class that implements \<open>Action\<close>; the
  argument of the constructor is its field \<open>elapsed\<close>.
\<close>

datatype Action = Tick jsnum

text \<open>\<open>expired\<close>, local to \<open>Tick.apply\<close>: \<open>Number(n.pos.y) > STROKE_LEN\<close>.\<close>

definition expired :: "MusicNote \<Rightarrow> bool" where
  "expired n = jsgt (vec_y (pos n)) STROKE_LEN"

text \<open>\<open>Tick.moveNote\<close>.\<close>

definition moveNote :: "jsnum \<Rightarrow> MusicNote \<Rightarrow> MusicNote" where
  "moveNote elapsed note =
     note\<lparr>pos := Vec_add (pos note)
                    (Vec_new (Fin 0)
                       (jsdiv STROKE_LEN (jssub (Number (Some (end' note))) elapsed)))\<rparr>"

text \<open>\<open>Tick.apply\<close>.\<close>

definition Tick_apply :: "jsnum \<Rightarrow> State \<Rightarrow> State" where
  "Tick_apply elapsed s =
     (let expiredNotes = filter expired (notes' s);
          activeNotes = filter (not expired) (notes' s)
      in s\<lparr>notes' := map (moveNote elapsed) activeNotes,
            exit := expiredNotes,
            time := elapsed\<rparr>)"

text \<open>\<open>action.apply(s)\<close>, dispatched on the class of the action, and \<open>reduceState\<close>.\<close>

fun Action_apply :: "Action \<Rightarrow> State \<Rightarrow> State" where
  "Action_apply (Tick elapsed) s = Tick_apply elapsed s"

definition reduceState :: "State \<Rightarrow> Action \<Rightarrow> State" where
  "reduceState s action = Action_apply action s"


text \<open>
  The fold that \<open>scan(reduceState, initialState)\<close> runs over the actions it receives:
  \<open>scan\<close> emits the state after each action.
\<close>

fun scan :: "('s \<Rightarrow> 'a \<Rightarrow> 's) \<Rightarrow> 's \<Rightarrow> 'a list \<Rightarrow> 's list" where
  "scan f s [] = []"
| "scan f s (a # as) = f s a # scan f (f s a) as"

text \<open>
  The events that reach \<open>main\<close>: the firings of \<open>interval(TICK_RATE_MS)\<close>, the
  \<open>n\<close>-th of which carries \<open>n\<close>, and the \<open>keydown\<close> events of the document, with
  the \<open>code\<close> of the key and the time stamp.
\<close>

datatype Event = IntervalEmit nat | Keydown string jsnum

text \<open>
  \<open>tick$\<close> maps each firing of the interval to \<open>new Tick(elapsed)\<close>. The stream
  \<open>key$\<close> of the \<open>keydown\<close> events is declared, and nothing subscribes to it or
  merges it into another stream: \<open>source$\<close> is \<open>tick$.pipe(scan(reduceState,
  initialState))\<close>.
\<close>

fun tick_stream :: "Event list \<Rightarrow> Action list" where
  "tick_stream [] = []"
| "tick_stream (IntervalEmit n # es) = Tick (Fin (real n)) # tick_stream es"
| "tick_stream (Keydown code t # es) = tick_stream es"

definition source_stream :: "State \<Rightarrow> Event list \<Rightarrow> State list" where
  "source_stream initialState es = scan reduceState initialState (tick_stream es)"

text \<open>
  \<open>process\<close>, the loader of the chart. An element of an array that a destructuring
  reads beyond its length is \<open>undefined\<close>. Each observable of the result emits one
  note after \<open>Number(note.end)\<close> milliseconds: it is the pair of that delay and the
  note. \<open>String(n)\<close> on a number prints the shortest decimal that reads back as the
  same double; the numbers here are not rounded, so the conversion is the parameter
  \<open>toString\<close>.
\<close>

definition element :: "'a list \<Rightarrow> nat \<Rightarrow> 'a option" where
  "element xs i = (if i < length xs then Some (xs ! i) else None)"

definition makeNote :: "(jsnum \<Rightarrow> string) \<Rightarrow> nat \<Rightarrow> string \<Rightarrow> MusicNote" where
  "makeNote toString index line =
     (let fields = String_split (CHR '','') line;
          user_played = element fields 0;
          instrument_name = element fields 1;
          velocity = element fields 2;
          pitch = element fields 3;
          start = element fields 4;
          endField = element fields 5
      in \<lparr>id' = jsadd (Fin (real index)) (Fin 1),
          viewType = ''note'',
          user_played = user_played,
          instrument_name = instrument_name,
          velocity = velocity,
          pitch = pitch,
          start = start,
          end' = toString (jsmul (Number endField) (Fin 1000)),
          pos = Vec_new (jsmul (jsadd (jsrem (Number pitch) (Fin 4)) (Fin 1)) (Fin 20)) (Fin 0),
          color = pitchToColor pitch\<rparr>)"

definition process :: "(jsnum \<Rightarrow> string) \<Rightarrow> string \<Rightarrow> (jsnum \<times> MusicNote) list" where
  "process toString text =
     (let lines = drop 1 (String_split (CHR 0x0A) text)
      in map (\<lambda>(index, line).
                let note = makeNote toString index line
                in (Number (Some (end' note)), note))
             (enumerate 0 lines))"


text \<open>
  \<open>initialState\<close> of \<open>main\<close>, for the notes it is given. It is the state of the
  declared type \<open>State\<close>. In \<open>main\<close> itself the field \<open>notes\<close> is given
  \<open>notes$\<close>, the array of the observables that \<open>process\<close> returns, which are not
  notes: a tick on that value reads \<open>pos\<close> of an observable and throws. The
  theorems below are about the states of the declared type.
\<close>

definition initialState :: "MusicNote list \<Rightarrow> State" where
  "initialState ns =
     \<lparr>gameEnd = False, notes' = ns, time = Fin 0, score = Fin 0, objCount = Fin 0,
      exit = []\<rparr>"

section \<open>Sample data\<close>

text \<open>
  A note of the first column, as the loader builds it, with a given \<open>end\<close> and a
  given height \<open>y\<close>.
\<close>

definition sampleNote :: "string \<Rightarrow> jsnum \<Rightarrow> MusicNote" where
  "sampleNote e y =
     \<lparr>id' = Fin 1, viewType = ''note'', user_played = Some ''True'',
      instrument_name = Some ''piano'', velocity = Some ''80'', pitch = Some ''0'',
      start = Some ''1'', end' = e, pos = Vec_new (Fin 20) y,
      color = ''url(#greenGradient)''\<rparr>"

text \<open>
  A chart of a header and two rows, and the values of \<open>String\<close> on the two numbers
  that its \<open>end\<close> fields give.
\<close>

definition sampleChart :: string where
  "sampleChart = ''user_played,instrument_name,velocity,pitch,start,end'' @ [CHR 0x0A] @
     ''True,piano,80,60,0.5,1.5'' @ [CHR 0x0A] @ ''False,violin,70,61,1,2''"

definition sampleToString :: "jsnum \<Rightarrow> string" where
  "sampleToString v =
     (if v = Fin 1500 then ''1500'' else if v = Fin 2000 then ''2000'' else ''NaN'')"

text \<open>
  Seven firings of the interval, and the same with a \<open>keydown\<close> of a given key and
  time stamp before the last of them.
\<close>

definition noKey :: "Event list" where
  "noKey =
     [IntervalEmit 0, IntervalEmit 1, IntervalEmit 2, IntervalEmit 3, IntervalEmit 4,
      IntervalEmit 5, IntervalEmit 6]"

definition pressKey :: "string \<Rightarrow> jsnum \<Rightarrow> Event list" where
  "pressKey code t =
     [IntervalEmit 0, IntervalEmit 1, IntervalEmit 2, IntervalEmit 3, IntervalEmit 4,
      IntervalEmit 5, Keydown code t, IntervalEmit 6]"

lemmas number_defs =
  Number_def StringToNumber_def trimString_def isStrWhiteSpace_def
  NonDecimalIntegerLiteral_def StrUnsignedDecimalLiteral_def splitFirst_def
  SignedInteger_def digitsValue_def digitValue_def scale10_def

section \<open>Arithmetic of the model\<close>

lemma jssub_finite:
  "isFinite t \<Longrightarrow> isFinite e \<Longrightarrow> val t \<noteq> val e \<Longrightarrow> jssub t e = Fin (val t - val e)"
  by (cases t; cases e) (auto simp: jssub_def)

lemma jsadd_finite: "isFinite a \<Longrightarrow> jsadd a (Fin d) = Fin (val a + d)"
  by (cases a) auto

lemma jsdiv_finite: "a \<noteq> 0 \<Longrightarrow> d \<noteq> 0 \<Longrightarrow> jsdiv (Fin a) (Fin d) = Fin (a / d)"
  by (simp add: jsdiv_def)

lemma jsadd_zero: "sameValueZero (jsadd a (Fin 0)) a"
  by (cases a) (auto simp: sameValueZero_def)

lemma jsadd_zero_eq: "a \<noteq> NegZero \<Longrightarrow> jsadd a (Fin 0) = a"
  by (cases a) auto

section \<open>The movement of a note\<close>

lemma moveNote_y:
  "vec_y (pos (moveNote e n)) =
     jsadd (vec_y (pos n)) (jsdiv STROKE_LEN (jssub (Number (Some (end' n))) e))"
  by (simp add: moveNote_def Vec_add_def Vec_new_def)

lemma moveNote_end: "end' (moveNote e n) = end' n"
  by (simp add: moveNote_def)

text \<open>
  Claim C9. \<open>Tick.moveNote\<close> changes the height of a note and nothing else: the
  fields \<open>id\<close>, \<open>viewType\<close>, \<open>user_played\<close>, \<open>instrument_name\<close>, \<open>velocity\<close>,
  \<open>pitch\<close>, \<open>start\<close>, \<open>end\<close> and \<open>color\<close> are the same, and the new \<open>x\<close>, which
  is \<open>x + 0\<close>, is the same number as the old one (it is the old one, only \<open>-0 + 0\<close>
  is \<open>+0\<close>, which \<open>===\<close> does not tell from \<open>-0\<close>): the note stays in its column.
\<close>

theorem moveNote_frame:
  fixes n :: MusicNote
  shows "id' (moveNote e n) = id' n \<and> viewType (moveNote e n) = viewType n \<and>
         user_played (moveNote e n) = user_played n \<and>
         instrument_name (moveNote e n) = instrument_name n \<and>
         velocity (moveNote e n) = velocity n \<and> pitch (moveNote e n) = pitch n \<and>
         start (moveNote e n) = start n \<and> end' (moveNote e n) = end' n \<and>
         color (moveNote e n) = color n \<and>
         sameValueZero (vec_x (pos (moveNote e n))) (vec_x (pos n)) \<and>
         (vec_x (pos n) \<noteq> NegZero \<longrightarrow> vec_x (pos (moveNote e n)) = vec_x (pos n)) \<and>
         moveNote e n = n\<lparr>pos := pos (moveNote e n)\<rparr>"
  by (simp add: moveNote_def Vec_add_def Vec_new_def jsadd_zero jsadd_zero_eq)

theorem moveNote_frame_witness:
  "vec_x (pos (moveNote (Fin 0) (sampleNote ''700'' (Fin 0)))) = Fin 20 \<and>
   pitch (moveNote (Fin 0) (sampleNote ''700'' (Fin 0))) = Some ''0'' \<and>
   end' (moveNote (Fin 0) (sampleNote ''700'' (Fin 0))) = ''700''"
proof -
  let ?n = "sampleNote ''700'' (Fin 0)"
  have x: "vec_x (pos ?n) = Fin 20" and p: "pitch ?n = Some ''0''" and e: "end' ?n = ''700''"
    by (simp_all add: sampleNote_def Vec_new_def)
  have nz: "vec_x (pos ?n) \<noteq> NegZero"
    by (simp add: x)
  from moveNote_frame[of "Fin 0" ?n] nz
  have "vec_x (pos (moveNote (Fin 0) ?n)) = vec_x (pos ?n)"
    and "pitch (moveNote (Fin 0) ?n) = pitch ?n"
    and "end' (moveNote (Fin 0) ?n) = end' ?n"
    by blast+
  then show ?thesis
    unfolding x p e by blast
qed

section \<open>A tick\<close>

lemma not_expired: "filter (not expired) xs = filter (\<lambda>n. \<not> expired n) xs"
  by (simp add: not_def[abs_def])

text \<open>
  Claim C7. A tick changes the fields \<open>time\<close>, \<open>notes\<close> and \<open>exit\<close> of the state
  and leaves \<open>score\<close>, \<open>gameEnd\<close> and \<open>objCount\<close> as they are.
\<close>

theorem Tick_apply_frame:
  fixes s :: State
  shows "score (reduceState s (Tick e)) = score s \<and>
         gameEnd (reduceState s (Tick e)) = gameEnd s \<and>
         objCount (reduceState s (Tick e)) = objCount s \<and>
         reduceState s (Tick e) =
           s\<lparr>notes' := notes' (reduceState s (Tick e)),
             exit := exit (reduceState s (Tick e)),
             time := e\<rparr>"
  by (simp add: reduceState_def Tick_apply_def Let_def)

theorem Tick_apply_frame_witness:
  "score (reduceState (initialState [sampleNote ''700'' (Fin 0)]) (Tick (Fin 1))) = Fin 0 \<and>
   gameEnd (reduceState (initialState [sampleNote ''700'' (Fin 0)]) (Tick (Fin 1))) = False \<and>
   objCount (reduceState (initialState [sampleNote ''700'' (Fin 0)]) (Tick (Fin 1))) = Fin 0"
proof -
  let ?s = "initialState [sampleNote ''700'' (Fin 0)]"
  have s: "score ?s = Fin 0" "gameEnd ?s = False" "objCount ?s = Fin 0"
    by (simp_all add: initialState_def)
  from Tick_apply_frame[of ?s "Fin 1"]
  have "score (reduceState ?s (Tick (Fin 1))) = score ?s"
    and "gameEnd (reduceState ?s (Tick (Fin 1))) = gameEnd ?s"
    and "objCount (reduceState ?s (Tick (Fin 1))) = objCount ?s"
    by blast+
  then show ?thesis unfolding s by blast
qed

text \<open>
  Claim C1. \<open>Tick.apply\<close> partitions the notes of the state it is given: they are,
  occurrence for occurrence, the notes that are not expired, which the result holds
  moved in \<open>notes\<close>, and the expired ones, which the result holds in \<open>exit\<close>; none is
  lost and none is doubled. The \<open>exit\<close> of the result is made of the notes of this
  tick only, whatever the \<open>exit\<close> of the state before.
\<close>

theorem Tick_apply_partition:
  fixes s :: State
  shows "(\<exists>live. mset (notes' s) = mset live + mset (exit (reduceState s (Tick e))) \<and>
            notes' (reduceState s (Tick e)) = map (moveNote e) live \<and>
            (\<forall>n \<in> set live. \<not> expired n) \<and>
            (\<forall>n \<in> set (exit (reduceState s (Tick e))). expired n)) \<and>
         length (notes' (reduceState s (Tick e))) + length (exit (reduceState s (Tick e)))
           = length (notes' s) \<and>
         exit (reduceState s (Tick e)) = filter expired (notes' s) \<and>
         exit (reduceState (s\<lparr>exit := old\<rparr>) (Tick e)) = exit (reduceState s (Tick e))"
proof -
  let ?live = "filter (not expired) (notes' s)"
  have split: "mset (notes' s) = mset ?live + mset (filter expired (notes' s))"
    by (simp add: not_expired)
  have len: "length ?live + length (filter expired (notes' s)) = length (notes' s)"
    using sum_length_filter_compl[of expired "notes' s"] by (simp add: not_expired)
  have live: "\<forall>n \<in> set ?live. \<not> expired n"
    by (simp add: not_def)
  have ex: "exit (reduceState s (Tick e)) = filter expired (notes' s)"
    and nt: "notes' (reduceState s (Tick e)) = map (moveNote e) ?live"
    and old: "exit (reduceState (s\<lparr>exit := old\<rparr>) (Tick e)) = filter expired (notes' s)"
    by (simp_all add: reduceState_def Tick_apply_def Let_def)
  have "\<exists>live. mset (notes' s) = mset live + mset (exit (reduceState s (Tick e))) \<and>
            notes' (reduceState s (Tick e)) = map (moveNote e) live \<and>
            (\<forall>n \<in> set live. \<not> expired n) \<and>
            (\<forall>n \<in> set (exit (reduceState s (Tick e))). expired n)"
    using split live nt unfolding ex by (intro exI[of _ ?live]) simp
  moreover have "length (notes' (reduceState s (Tick e)))
       + length (exit (reduceState s (Tick e))) = length (notes' s)"
    using len by (simp add: ex nt)
  ultimately show ?thesis using ex old by simp
qed

lemma expired_sample: "expired (sampleNote e y) = jsgt y STROKE_LEN"
  by (simp add: expired_def sampleNote_def Vec_new_def)

theorem Tick_apply_partition_witness:
  "exit (reduceState (initialState [sampleNote ''700'' (Fin 0), sampleNote ''700'' (Fin 400)])
           (Tick (Fin 0)))
     = [sampleNote ''700'' (Fin 400)] \<and>
   notes' (reduceState (initialState [sampleNote ''700'' (Fin 0), sampleNote ''700'' (Fin 400)])
           (Tick (Fin 0)))
     = [moveNote (Fin 0) (sampleNote ''700'' (Fin 0))] \<and>
   \<not> expired (sampleNote ''700'' (Fin 0)) \<and> expired (sampleNote ''700'' (Fin 400))"
proof -
  let ?a = "sampleNote ''700'' (Fin 0)" and ?b = "sampleNote ''700'' (Fin 400)"
  let ?s = "initialState [?a, ?b]"
  let ?t = "reduceState ?s (Tick (Fin 0))"
  have a: "\<not> expired ?a" and b: "expired ?b"
    by (simp_all add: expired_sample jsgt_def STROKE_LEN_def)
  have ns: "notes' ?s = [?a, ?b]"
    by (simp add: initialState_def)
  from Tick_apply_partition[of ?s "Fin 0" "[]"]
  obtain live where m: "mset (notes' ?s) = mset live + mset (exit ?t)"
    and n: "notes' ?t = map (moveNote (Fin 0)) live"
    and e: "exit ?t = filter expired (notes' ?s)"
    by blast
  have e': "exit ?t = [?b]"
    using a b by (simp add: e ns)
  have "mset live = {#?a#}"
    using m by (simp add: ns e')
  then have "live = [?a]"
    by simp
  then show ?thesis
    using n e' a b by simp
qed

lemma reduce_notes:
  "notes' (reduceState s (Tick e)) = map (moveNote e) (filter (\<lambda>n. \<not> expired n) (notes' s))"
  by (simp add: reduceState_def Tick_apply_def Let_def not_expired)

lemma reduce_exit: "exit (reduceState s (Tick e)) = filter expired (notes' s)"
  by (simp add: reduceState_def Tick_apply_def Let_def)

lemma Number_700: "Number (Some ''700'') = Fin 700"
  by (simp add: number_defs)
lemma Number_5: "Number (Some ''5'') = Fin 5"
  by (simp add: number_defs)
lemma Number_neg0: "Number (Some ''-0'') = NegZero"
  by (simp add: number_defs)

lemma sample_fields:
  "end' (sampleNote e y) = e" "vec_y (pos (sampleNote e y)) = y"
  "vec_x (pos (sampleNote e y)) = Fin 20"
  by (simp_all add: sampleNote_def Vec_new_def)

lemma move_sample:
  "moveNote t (sampleNote e y) =
     sampleNote e (jsadd y (jsdiv STROKE_LEN (jssub (Number (Some e)) t)))"
  by (simp add: moveNote_def sampleNote_def Vec_add_def Vec_new_def)

lemma Number_3000: "Number (Some ''3000'') = Fin 3000"
  by (simp add: number_defs)

section \<open>Movement over a sequence of ticks\<close>

lemma jsgt_finite: "isFinite a \<Longrightarrow> isFinite b \<Longrightarrow> jsgt b a = (val a < val b)"
  by (cases a; cases b) (auto simp: jsgt_def)

lemma moveNote_step:
  assumes "isFinite (vec_y (pos n))" and "isFinite (Number (Some (end' n)))"
    and "isFinite e" and "val e \<noteq> val (Number (Some (end' n)))"
  shows "vec_y (pos (moveNote e n)) =
    Fin (val (vec_y (pos n)) + 350 / (val (Number (Some (end' n))) - val e))"
proof -
  have d: "val (Number (Some (end' n))) - val e \<noteq> 0"
    using assms(4) by simp
  have "jssub (Number (Some (end' n))) e = Fin (val (Number (Some (end' n))) - val e)"
    using assms by (intro jssub_finite) auto
  then show ?thesis
    using d assms(1) by (simp add: moveNote_y STROKE_LEN_def jsdiv_finite jsadd_finite)
qed

lemma trajectory_above:
  assumes "isFinite (vec_y (pos n))" and "isFinite (Number (Some (end' n)))"
    and "\<forall>e \<in> set es. isFinite e \<and> val e < val (Number (Some (end' n)))"
  shows "\<forall>m \<in> set (scan (\<lambda>m e. moveNote e m) n es).
           isFinite (vec_y (pos m)) \<and> val (vec_y (pos n)) < val (vec_y (pos m))"
  using assms
proof (induction es arbitrary: n)
  case Nil
  then show ?case by simp
next
  case (Cons e es)
  let ?m = "moveNote e n"
  have e: "isFinite e" "val e < val (Number (Some (end' n)))"
    using Cons.prems(3) by simp_all
  have y: "vec_y (pos ?m) =
      Fin (val (vec_y (pos n)) + 350 / (val (Number (Some (end' n))) - val e))"
    using Cons.prems(1,2) e by (intro moveNote_step) auto
  have up: "val (vec_y (pos n)) < val (vec_y (pos ?m))"
    using e(2) by (simp add: y)
  have fin: "isFinite (vec_y (pos ?m))"
    by (simp add: y)
  have "\<forall>k \<in> set (scan (\<lambda>m e. moveNote e m) ?m es).
           isFinite (vec_y (pos k)) \<and> val (vec_y (pos ?m)) < val (vec_y (pos k))"
    using Cons.prems fin by (intro Cons.IH) (simp_all add: moveNote_end)
  then show ?case
    using up fin by fastforce
qed

text \<open>
  Claim C2, as the code has it. Each tick adds \<open>STROKE_LEN / (Number(end) - elapsed)\<close>
  to the height. For a note whose height and whose \<open>Number(end)\<close> are finite, and a
  sequence of finite elapsed values that are all less than \<open>Number(end)\<close>, the note
  never falls back: every height it takes is a number, and none is \<open>>\<close> a later
  one. That each step is a strict rise is not stated. Nothing is said of an elapsed
  value beyond \<open>Number(end)\<close>, where the step is negative.
\<close>

theorem moveNote_progress:
  assumes "isFinite (vec_y (pos n))" and "isFinite (Number (Some (end' n)))"
    and "\<forall>e \<in> set es. isFinite e \<and> val e < val (Number (Some (end' n)))"
  shows "sorted_wrt (\<lambda>a b. a \<noteq> NaN \<and> b \<noteq> NaN \<and> \<not> jsgt a b)
           (map (\<lambda>m. vec_y (pos m)) (n # scan (\<lambda>m e. moveNote e m) n es))"
  using assms
proof (induction es arbitrary: n)
  case Nil
  then show ?case by simp
next
  case (Cons e es)
  let ?m = "moveNote e n"
  have above: "\<forall>m \<in> set (scan (\<lambda>m e. moveNote e m) n (e # es)).
           isFinite (vec_y (pos m)) \<and> val (vec_y (pos n)) < val (vec_y (pos m))"
    using Cons.prems by (rule trajectory_above)
  then have fin: "isFinite (vec_y (pos ?m))"
    by simp
  have rest: "sorted_wrt (\<lambda>a b. a \<noteq> NaN \<and> b \<noteq> NaN \<and> \<not> jsgt a b)
           (map (\<lambda>m. vec_y (pos m)) (?m # scan (\<lambda>m e. moveNote e m) ?m es))"
    using Cons.prems fin by (intro Cons.IH) (simp_all add: moveNote_end)
  have nan: "vec_y (pos n) \<noteq> NaN"
    using Cons.prems(1) by auto
  have "\<forall>m \<in> set (scan (\<lambda>m e. moveNote e m) n (e # es)).
          vec_y (pos m) \<noteq> NaN \<and> \<not> jsgt (vec_y (pos n)) (vec_y (pos m))"
  proof
    fix m
    assume "m \<in> set (scan (\<lambda>m e. moveNote e m) n (e # es))"
    with above have f: "isFinite (vec_y (pos m))"
      and l: "val (vec_y (pos n)) < val (vec_y (pos m))"
      by blast+
    have "jsgt (vec_y (pos n)) (vec_y (pos m)) = (val (vec_y (pos m)) < val (vec_y (pos n)))"
      using f Cons.prems(1) by (rule jsgt_finite)
    with l have "\<not> jsgt (vec_y (pos n)) (vec_y (pos m))"
      by simp
    moreover have "vec_y (pos m) \<noteq> NaN"
      using f by auto
    ultimately show "vec_y (pos m) \<noteq> NaN \<and> \<not> jsgt (vec_y (pos n)) (vec_y (pos m))"
      by simp
  qed
  then show ?case
    using rest nan by simp
qed

theorem moveNote_progress_witness:
  "isFinite (vec_y (pos (sampleNote ''700'' (Fin 0)))) \<and>
   isFinite (Number (Some (end' (sampleNote ''700'' (Fin 0))))) \<and>
   list_all (\<lambda>e. isFinite e \<and> val e < val (Number (Some (end' (sampleNote ''700'' (Fin 0))))))
     [Fin 0, Fin 350] \<and>
   sorted_wrt (\<lambda>a b. a \<noteq> NaN \<and> b \<noteq> NaN \<and> \<not> jsgt a b)
     (map (\<lambda>m. vec_y (pos m))
        (sampleNote ''700'' (Fin 0) #
         scan (\<lambda>m e. moveNote e m) (sampleNote ''700'' (Fin 0)) [Fin 0, Fin 350])) \<and>
   map (\<lambda>m. vec_y (pos m))
     (sampleNote ''700'' (Fin 0) #
      scan (\<lambda>m e. moveNote e m) (sampleNote ''700'' (Fin 0)) [Fin 0, Fin 350])
     = [Fin 0, Fin (1 / 2), Fin (3 / 2)]"
proof -
  let ?n = "sampleNote ''700'' (Fin 0)"
  have h1: "isFinite (vec_y (pos ?n))" and h2: "isFinite (Number (Some (end' ?n)))"
    by (simp_all add: sample_fields Number_700)
  have h3: "\<forall>e \<in> set [Fin 0, Fin 350]. isFinite e \<and> val e < val (Number (Some (end' ?n)))"
    by (simp add: sample_fields Number_700)
  have l: "list_all (\<lambda>e. isFinite e \<and> val e < val (Number (Some (end' ?n)))) [Fin 0, Fin 350]"
    using h3 by (simp add: list_all_iff)
  have v: "map (\<lambda>m. vec_y (pos m)) (?n # scan (\<lambda>m e. moveNote e m) ?n [Fin 0, Fin 350])
     = [Fin 0, Fin (1 / 2), Fin (3 / 2)]"
    by (simp add: move_sample sample_fields Number_700 STROKE_LEN_def jssub_def jsdiv_def)
  show ?thesis
    by (intro conjI h1 h2 l v moveNote_progress[OF h1 h2 h3])
qed

text \<open>
  The claim as stated fails: the note with \<open>end = "700"\<close> at height 0, moved at the
  elapsed values 0 and then 1400, a non-decreasing sequence, rises to 1/2 and falls
  back to 0.
\<close>

theorem moveNote_progress_counterexample:
  "map (\<lambda>m. vec_y (pos m))
     (sampleNote ''700'' (Fin 0) #
      scan (\<lambda>m e. moveNote e m) (sampleNote ''700'' (Fin 0)) [Fin 0, Fin 1400])
     = [Fin 0, Fin (1 / 2), Fin 0] \<and>
   \<not> jsgt (Fin 0) (Fin 1400) \<and>
   \<not> sorted_wrt (\<lambda>a b. jsgt b a)
       (map (\<lambda>m. vec_y (pos m))
         (sampleNote ''700'' (Fin 0) #
          scan (\<lambda>m e. moveNote e m) (sampleNote ''700'' (Fin 0)) [Fin 0, Fin 1400])) \<and>
   \<not> sorted_wrt (\<lambda>a b. a \<noteq> NaN \<and> b \<noteq> NaN \<and> \<not> jsgt a b)
       (map (\<lambda>m. vec_y (pos m))
         (sampleNote ''700'' (Fin 0) #
          scan (\<lambda>m e. moveNote e m) (sampleNote ''700'' (Fin 0)) [Fin 0, Fin 1400]))"
  by (simp add: move_sample sample_fields Number_700 STROKE_LEN_def jssub_def jsdiv_def
      jsgt_def signedInf_def signedZero_def)

text \<open>
  Claim C3, as the code has it. The movement is a step added at each call, not a
  position computed from the elapsed time: the step
  \<open>STROKE_LEN / (Number(end) - elapsed)\<close> depends on the \<open>end\<close> of the note and on
  the elapsed value only, and moving a note twice at the same elapsed value adds it
  to the height twice. The second move leaves the note where the first has put it
  exactly when adding the step once more does not change the height.
\<close>

theorem moveNote_replay:
  "vec_y (pos (moveNote e n)) =
     jsadd (vec_y (pos n)) (jsdiv STROKE_LEN (jssub (Number (Some (end' n))) e)) \<and>
   vec_y (pos (moveNote e (moveNote e n))) =
     jsadd (jsadd (vec_y (pos n)) (jsdiv STROKE_LEN (jssub (Number (Some (end' n))) e)))
           (jsdiv STROKE_LEN (jssub (Number (Some (end' n))) e)) \<and>
   (moveNote e (moveNote e n) = moveNote e n) =
     (jsadd (vec_y (pos (moveNote e n))) (jsdiv STROKE_LEN (jssub (Number (Some (end' n))) e))
        = vec_y (pos (moveNote e n)))"
proof -
  let ?d = "jsdiv STROKE_LEN (jssub (Number (Some (end' n))) e)"
  let ?m = "moveNote e n"
  have one: "vec_y (pos ?m) = jsadd (vec_y (pos n)) ?d"
    by (rule moveNote_y)
  have two: "vec_y (pos (moveNote e ?m)) = jsadd (vec_y (pos ?m)) ?d"
    by (simp add: moveNote_y moveNote_end)
  have x: "jsadd (jsadd a (Fin 0)) (Fin 0) = jsadd a (Fin 0)" for a
    by (cases a) simp_all
  have px: "vec_x (pos (moveNote e ?m)) = vec_x (pos ?m)"
    by (simp add: moveNote_def Vec_add_def Vec_new_def x)
  have "(moveNote e ?m = ?m) = (pos (moveNote e ?m) = pos ?m)"
  proof
    assume "moveNote e ?m = ?m"
    then show "pos (moveNote e ?m) = pos ?m"
      by simp
  next
    assume p: "pos (moveNote e ?m) = pos ?m"
    have "moveNote e ?m = ?m\<lparr>pos := pos (moveNote e ?m)\<rparr>"
      by (simp add: moveNote_def)
    then show "moveNote e ?m = ?m"
      by (simp add: p)
  qed
  also have "\<dots> = (vec_y (pos (moveNote e ?m)) = vec_y (pos ?m))"
    using px by (auto intro: Vec.equality)
  finally have same: "(moveNote e ?m = ?m) = (jsadd (vec_y (pos ?m)) ?d = vec_y (pos ?m))"
    by (simp only: two)
  from two have two': "vec_y (pos (moveNote e ?m)) = jsadd (jsadd (vec_y (pos n)) ?d) ?d"
    by (simp only: one)
  show ?thesis
    by (intro conjI one two' same)
qed

theorem moveNote_replay_witness:
  "vec_y (pos (moveNote (Fin 350) (sampleNote ''700'' (Fin 0)))) = Fin 1 \<and>
   vec_y (pos (moveNote (Fin 350) (moveNote (Fin 350) (sampleNote ''700'' (Fin 0))))) = Fin 2 \<and>
   moveNote (Fin 350) (moveNote (Fin 350) (sampleNote ''700'' (Fin 0)))
     \<noteq> moveNote (Fin 350) (sampleNote ''700'' (Fin 0))"
proof -
  let ?n = "sampleNote ''700'' (Fin 0)"
  have d: "jsdiv STROKE_LEN (jssub (Number (Some (end' ?n))) (Fin 350)) = Fin 1"
    by (simp add: sample_fields Number_700 STROKE_LEN_def jssub_def jsdiv_def)
  have y: "vec_y (pos ?n) = Fin 0"
    by (simp add: sample_fields)
  from moveNote_replay[of "Fin 350" ?n]
  have one: "vec_y (pos (moveNote (Fin 350) ?n)) = Fin 1"
    and two: "vec_y (pos (moveNote (Fin 350) (moveNote (Fin 350) ?n))) = Fin 2"
    and same: "(moveNote (Fin 350) (moveNote (Fin 350) ?n) = moveNote (Fin 350) ?n) =
      (jsadd (vec_y (pos (moveNote (Fin 350) ?n))) (Fin 1) = vec_y (pos (moveNote (Fin 350) ?n)))"
    unfolding d y by simp_all
  have "moveNote (Fin 350) (moveNote (Fin 350) ?n) \<noteq> moveNote (Fin 350) ?n"
    unfolding same one by simp
  with one two show ?thesis
    by blast
qed

text \<open>
  The claim as stated fails: the note with \<open>end = "700"\<close> at height 0, moved at
  the elapsed value 0, is at 1/2, and moved again at the same elapsed value is at 1.
\<close>

theorem moveNote_replay_counterexample:
  "vec_y (pos (moveNote (Fin 0) (sampleNote ''700'' (Fin 0)))) = Fin (1 / 2) \<and>
   vec_y (pos (moveNote (Fin 0) (moveNote (Fin 0) (sampleNote ''700'' (Fin 0))))) = Fin 1 \<and>
   pos (moveNote (Fin 0) (moveNote (Fin 0) (sampleNote ''700'' (Fin 0))))
     \<noteq> pos (moveNote (Fin 0) (sampleNote ''700'' (Fin 0)))"
proof -
  have a: "vec_y (pos (moveNote (Fin 0) (sampleNote ''700'' (Fin 0)))) = Fin (1 / 2)"
   and b: "vec_y (pos (moveNote (Fin 0) (moveNote (Fin 0) (sampleNote ''700'' (Fin 0))))) = Fin 1"
    by (simp_all add: move_sample sample_fields Number_700 STROKE_LEN_def jssub_def jsdiv_def)
  have "pos (moveNote (Fin 0) (moveNote (Fin 0) (sampleNote ''700'' (Fin 0))))
     \<noteq> pos (moveNote (Fin 0) (sampleNote ''700'' (Fin 0)))"
  proof
    assume "pos (moveNote (Fin 0) (moveNote (Fin 0) (sampleNote ''700'' (Fin 0))))
      = pos (moveNote (Fin 0) (sampleNote ''700'' (Fin 0)))"
    then have "vec_y (pos (moveNote (Fin 0) (moveNote (Fin 0) (sampleNote ''700'' (Fin 0)))))
      = vec_y (pos (moveNote (Fin 0) (sampleNote ''700'' (Fin 0))))"
      by simp
    then show False unfolding a b by simp
  qed
  then show ?thesis using a b by simp
qed

section \<open>A note whose end is the elapsed time\<close>

text \<open>
  Claim C4, as the code has it. A tick raises nothing; where \<open>Number(end) - elapsed\<close>
  is zero, the division by it is carried out and gives an infinity. For a note of the
  state that is not expired, whose height is finite and whose \<open>Number(end) - elapsed\<close>
  is \<open>+0\<close>, the quotient is \<open>+Infinity\<close>, the tick leaves the note in \<open>notes\<close> at
  the height \<open>+Infinity\<close>, and the next tick, whatever its elapsed value, moves every
  occurrence of it to \<open>exit\<close>.
\<close>

theorem zero_duration_expires:
  assumes "n \<in> set (notes' s)" and "\<not> expired n" and "isFinite (vec_y (pos n))"
    and "jssub (Number (Some (end' n))) e = Fin 0"
  shows "jsdiv STROKE_LEN (jssub (Number (Some (end' n))) e) = PosInf \<and>
         vec_y (pos (moveNote e n)) = PosInf \<and>
         moveNote e n \<in> set (notes' (reduceState s (Tick e))) \<and>
         moveNote e n \<in> set (exit (reduceState (reduceState s (Tick e)) (Tick e'))) \<and>
         count (mset (exit (reduceState (reduceState s (Tick e)) (Tick e')))) (moveNote e n)
           = count (mset (notes' (reduceState s (Tick e)))) (moveNote e n)"
proof -
  let ?m = "moveNote e n"
  have q: "jsdiv STROKE_LEN (jssub (Number (Some (end' n))) e) = PosInf"
    by (simp add: assms(4) jsdiv_def STROKE_LEN_def signedInf_def)
  have y: "vec_y (pos ?m) = PosInf"
    using assms(3) by (cases "vec_y (pos n)") (simp_all add: moveNote_y q)
  have ex: "expired ?m"
    by (simp add: expired_def y jsgt_def STROKE_LEN_def)
  have live: "?m \<in> set (notes' (reduceState s (Tick e)))"
    using assms(1,2) by (simp add: reduce_notes)
  have "count (mset (filter expired xs)) ?m = count (mset xs) ?m" for xs
    using ex by (induction xs) simp_all
  then have c: "count (mset (exit (reduceState (reduceState s (Tick e)) (Tick e')))) ?m
           = count (mset (notes' (reduceState s (Tick e)))) ?m"
    by (simp only: reduce_exit)
  have "?m \<in> set (exit (reduceState (reduceState s (Tick e)) (Tick e')))"
    using live ex by (simp add: reduce_exit)
  then show ?thesis
    using q y live c by simp
qed

theorem zero_duration_expires_witness:
  "sampleNote ''5'' (Fin 0) \<in> set (notes' (initialState [sampleNote ''5'' (Fin 0)])) \<and>
   \<not> expired (sampleNote ''5'' (Fin 0)) \<and>
   isFinite (vec_y (pos (sampleNote ''5'' (Fin 0)))) \<and>
   jssub (Number (Some (end' (sampleNote ''5'' (Fin 0))))) (Fin 5) = Fin 0 \<and>
   notes' (reduceState (initialState [sampleNote ''5'' (Fin 0)]) (Tick (Fin 5)))
     = [sampleNote ''5'' PosInf] \<and>
   sampleNote ''5'' PosInf
     \<in> set (exit (reduceState (reduceState (initialState [sampleNote ''5'' (Fin 0)])
               (Tick (Fin 5))) (Tick (Fin 6))))"
proof -
  let ?n = "sampleNote ''5'' (Fin 0)"
  let ?s = "initialState [?n]"
  have h: "?n \<in> set (notes' ?s)" "\<not> expired ?n" "isFinite (vec_y (pos ?n))"
      "jssub (Number (Some (end' ?n))) (Fin 5) = Fin 0"
    by (simp_all add: initialState_def expired_def sample_fields Number_5 jssub_def
        jsgt_def STROKE_LEN_def)
  have m: "moveNote (Fin 5) ?n = sampleNote ''5'' PosInf"
    by (simp add: move_sample Number_5 jssub_def jsdiv_def STROKE_LEN_def signedInf_def)
  have ns: "notes' (reduceState ?s (Tick (Fin 5))) = [sampleNote ''5'' PosInf]"
    using h(2) by (simp add: reduce_notes initialState_def m)
  from zero_duration_expires[OF h, of "Fin 6"]
  have "moveNote (Fin 5) ?n
      \<in> set (exit (reduceState (reduceState ?s (Tick (Fin 5))) (Tick (Fin 6))))"
    by blast
  with h ns show ?thesis
    unfolding m by blast
qed

text \<open>
  The claim as stated fails where the quotient is not \<open>+Infinity\<close> or the height is
  not a number: the note with \<open>end = "-0"\<close> at height 0, at the elapsed value 0, has
  \<open>Number(end) === elapsed\<close> and \<open>Number(end) - elapsed = -0\<close>, so it goes to
  \<open>-Infinity\<close>; the note with \<open>end = "5"\<close> at the height \<open>NaN\<close>, at the elapsed
  value 5, stays at \<open>NaN\<close>. Neither is in \<open>exit\<close> after the next tick.
\<close>

theorem zero_duration_counterexample:
  "strictEq (Number (Some (end' (sampleNote ''-0'' (Fin 0))))) (Fin 0) \<and>
   notes' (reduceState (initialState [sampleNote ''-0'' (Fin 0)]) (Tick (Fin 0)))
     = [sampleNote ''-0'' NegInf] \<and>
   notes' (reduceState (reduceState (initialState [sampleNote ''-0'' (Fin 0)])
       (Tick (Fin 0))) (Tick (Fin 1)))
     = [sampleNote ''-0'' NegInf] \<and>
   exit (reduceState (reduceState (initialState [sampleNote ''-0'' (Fin 0)])
       (Tick (Fin 0))) (Tick (Fin 1))) = [] \<and>
   strictEq (Number (Some (end' (sampleNote ''5'' NaN)))) (Fin 5) \<and>
   notes' (reduceState (initialState [sampleNote ''5'' NaN]) (Tick (Fin 5)))
     = [sampleNote ''5'' NaN] \<and>
   notes' (reduceState (reduceState (initialState [sampleNote ''5'' NaN])
       (Tick (Fin 5))) (Tick (Fin 6)))
     = [sampleNote ''5'' NaN] \<and>
   exit (reduceState (reduceState (initialState [sampleNote ''5'' NaN])
       (Tick (Fin 5))) (Tick (Fin 6))) = []"
  by (simp add: reduce_notes reduce_exit initialState_def expired_def sample_fields
      move_sample Number_5 Number_neg0 jssub_def jsdiv_def STROKE_LEN_def signedInf_def
      jsgt_def strictEq_def)

section \<open>The fold over the actions\<close>

lemma last_scan: "last (s # scan f s xs) = foldl f s xs"
  by (induction xs arbitrary: s) simp_all

lemma tick_stream_append: "tick_stream (xs @ ys) = tick_stream xs @ tick_stream ys"
  by (induction xs rule: tick_stream.induct) simp_all

lemma score_reduce: "score (reduceState s a) = score s"
  by (cases a) (simp add: reduceState_def Tick_apply_def Let_def)

lemma score_scan: "map score (scan reduceState s as) = replicate (length as) (score s)"
  by (induction as arbitrary: s) (simp_all add: score_reduce)

text \<open>
  Claim C5. The fold of \<open>reduceState\<close> over a sequence of actions is a function of
  the initial state and the sequence: two runs from the same state over the same
  sequence end in the same state and emit the same states. The last state that
  \<open>scan\<close> emits is the fold, and a run can be resumed from the state that a prefix
  of the sequence has reached.
\<close>

theorem reduce_deterministic:
  "(s1 = s2 \<and> acts1 = acts2 \<longrightarrow>
      foldl reduceState s1 acts1 = foldl reduceState s2 acts2 \<and>
      scan reduceState s1 acts1 = scan reduceState s2 acts2) \<and>
   last (s1 # scan reduceState s1 acts1) = foldl reduceState s1 acts1 \<and>
   foldl reduceState s1 (acts1 @ acts2) = foldl reduceState (foldl reduceState s1 acts1) acts2"
proof -
  have "last (s1 # scan reduceState s1 acts1) = foldl reduceState s1 acts1"
    by (rule last_scan)
  then show ?thesis
    by simp
qed

theorem reduce_deterministic_witness:
  "foldl reduceState (initialState [sampleNote ''700'' (Fin 0)]) [Tick (Fin 0), Tick (Fin 350)]
     = foldl reduceState (initialState [sampleNote ''700'' (Fin 0)])
         [Tick (Fin 0), Tick (Fin 350)] \<and>
   last (initialState [sampleNote ''700'' (Fin 0)] #
         scan reduceState (initialState [sampleNote ''700'' (Fin 0)])
           [Tick (Fin 0), Tick (Fin 350)])
     = foldl reduceState (initialState [sampleNote ''700'' (Fin 0)])
         [Tick (Fin 0), Tick (Fin 350)] \<and>
   notes' (foldl reduceState (initialState [sampleNote ''700'' (Fin 0)])
         [Tick (Fin 0), Tick (Fin 350)])
     = [sampleNote ''700'' (Fin (3 / 2))]"
proof -
  let ?s = "initialState [sampleNote ''700'' (Fin 0)]"
  let ?as = "[Tick (Fin 0), Tick (Fin 350)]"
  have v: "notes' (foldl reduceState ?s ?as) = [sampleNote ''700'' (Fin (3 / 2))]"
    by (simp add: reduce_notes initialState_def expired_def sample_fields move_sample
        Number_700 jssub_def jsdiv_def STROKE_LEN_def jsgt_def)
  from reduce_deterministic[of ?s ?s ?as ?as]
  have "foldl reduceState ?s ?as = foldl reduceState ?s ?as"
    and "last (?s # scan reduceState ?s ?as) = foldl reduceState ?s ?as"
    by blast+
  with v show ?thesis
    by blast
qed

section \<open>Key presses\<close>

text \<open>
  Claim C6, as the code has it. There is no action for a key press: the reducer
  receives the ticks only. A \<open>keydown\<close> event, whatever its key and its time stamp,
  changes none of the states that \<open>source$\<close> emits, and no emitted state has another
  \<open>score\<close> than the initial one: no note is judged, as a hit or as a miss.
\<close>

theorem keydown_ignored:
  "source_stream s (es1 @ Keydown code t # es2) = source_stream s (es1 @ es2) \<and>
   map score (source_stream s es) = replicate (length (tick_stream es)) (score s)"
  by (simp add: source_stream_def tick_stream_append score_scan)

theorem keydown_ignored_witness:
  "source_stream (initialState [sampleNote ''3000'' (Fin 0)])
     ([IntervalEmit 0] @ Keydown ''KeyH'' (Fin 3040) # [IntervalEmit 1])
     = source_stream (initialState [sampleNote ''3000'' (Fin 0)])
         ([IntervalEmit 0] @ [IntervalEmit 1]) \<and>
   map score (source_stream (initialState [sampleNote ''3000'' (Fin 0)])
     [IntervalEmit 0, Keydown ''KeyH'' (Fin 3040), IntervalEmit 1]) = [Fin 0, Fin 0]"
proof -
  let ?s = "initialState [sampleNote ''3000'' (Fin 0)]"
  let ?es = "[IntervalEmit 0, Keydown ''KeyH'' (Fin 3040), IntervalEmit 1]"
  have s: "score ?s = Fin 0"
    by (simp add: initialState_def)
  have l: "replicate (length (tick_stream ?es)) (Fin 0 :: jsnum) = [Fin 0, Fin 0]"
    by (simp add: numeral_eq_Suc)
  from keydown_ignored[of ?s "[IntervalEmit 0]" "''KeyH''" "Fin 3040" "[IntervalEmit 1]" ?es]
  have a: "source_stream ?s ([IntervalEmit 0] @ Keydown ''KeyH'' (Fin 3040) # [IntervalEmit 1])
      = source_stream ?s ([IntervalEmit 0] @ [IntervalEmit 1])"
    and b: "map score (source_stream ?s ?es) = replicate (length (tick_stream ?es)) (score ?s)"
    by blast+
  from b have "map score (source_stream ?s ?es) = [Fin 0, Fin 0]"
    unfolding s l .
  with a show ?thesis
    by blast
qed

text \<open>
  The claim as stated fails: with the note of start 1 s and end 3000 ms in the state,
  the states emitted when \<open>KeyH\<close> is pressed at 3040 are the states emitted when it
  is pressed at 3100 and the states emitted when no key is pressed; the score is 0
  in each, \<open>exit\<close> is empty in each, and the note is in \<open>notes\<close> in each.
\<close>

theorem keypress_counterexample:
  "source_stream (initialState [sampleNote ''3000'' (Fin 0)]) (pressKey ''KeyH'' (Fin 3040))
     = source_stream (initialState [sampleNote ''3000'' (Fin 0)]) noKey \<and>
   source_stream (initialState [sampleNote ''3000'' (Fin 0)]) (pressKey ''KeyH'' (Fin 3100))
     = source_stream (initialState [sampleNote ''3000'' (Fin 0)]) noKey \<and>
   map score (source_stream (initialState [sampleNote ''3000'' (Fin 0)])
       (pressKey ''KeyH'' (Fin 3040))) = replicate 7 (Fin 0) \<and>
   map exit (source_stream (initialState [sampleNote ''3000'' (Fin 0)])
       (pressKey ''KeyH'' (Fin 3040))) = replicate 7 [] \<and>
   map (\<lambda>s. length (notes' s)) (source_stream (initialState [sampleNote ''3000'' (Fin 0)])
       (pressKey ''KeyH'' (Fin 3040))) = replicate 7 1"
  by (simp add: source_stream_def pressKey_def noKey_def reduce_notes reduce_exit
      initialState_def expired_def sample_fields move_sample Number_3000 jssub_def jsdiv_def
      STROKE_LEN_def jsgt_def numeral_eq_Suc score_reduce)

section \<open>The loader\<close>

lemma String_split_nonempty: "String_split sep s \<noteq> []"
  by (induction s) (simp_all split: list.splits)

lemma String_split_header:
  "sep \<notin> set h \<Longrightarrow> String_split sep (h @ sep # b) = h # String_split sep b"
  by (induction h) (auto split: list.splits)

lemma process_length:
  "length (process S text) = length (String_split (CHR 0x0A) text) - 1"
  by (simp add: process_def Let_def)

lemma process_nth:
  assumes "i < length (process S text)"
  shows "process S text ! i =
    (Number (Some (end' (makeNote S i (String_split (CHR 0x0A) text ! (i + 1))))),
     makeNote S i (String_split (CHR 0x0A) text ! (i + 1)))"
proof -
  let ?rows = "drop 1 (String_split (CHR 0x0A) text)"
  have i: "i < length ?rows"
    using assms by (simp add: process_length)
  then have "enumerate 0 ?rows ! i = (i, ?rows ! i)"
    by (simp add: nth_enumerate_eq)
  moreover have "?rows ! i = String_split (CHR 0x0A) text ! (i + 1)"
    using i by simp
  ultimately show ?thesis
    using i by (simp add: process_def Let_def)
qed

lemma makeNote_id: "id' (makeNote S i l) = Fin (real (i + 1))"
  by (simp add: makeNote_def Let_def)

lemma makeNote_end:
  "end' (makeNote S i l) =
     S (jsmul (Number (element (String_split (CHR '','') l) 5)) (Fin 1000))"
  by (simp add: makeNote_def Let_def)

text \<open>
  Claim C8. The loader makes one note for each line after the first one: the header
  is dropped, whatever it holds. The note of the \<open>i\<close>-th of these lines, counted
  from 0, has the id \<open>i + 1\<close>, and its \<open>end\<close> is the string of
  \<open>Number(end) * 1000\<close>, for the sixth field \<open>end\<close> of the line; the delay of its
  observable is the number of that string.
\<close>

theorem process_rows:
  "length (process S text) = length (String_split (CHR 0x0A) text) - 1 \<and>
   (\<forall>i < length (process S text).
      id' (snd (process S text ! i)) = Fin (real (i + 1)) \<and>
      end' (snd (process S text ! i)) =
        S (jsmul (Number (element (String_split (CHR '','')
                                     (String_split (CHR 0x0A) text ! (i + 1))) 5))
                 (Fin 1000)) \<and>
      fst (process S text ! i) = Number (Some (end' (snd (process S text ! i))))) \<and>
   (CHR 0x0A \<notin> set header \<longrightarrow>
      process S (header @ CHR 0x0A # body) = process S (CHR 0x0A # body) \<and>
      map snd (process S (header @ CHR 0x0A # body)) =
        map (\<lambda>(i, l). makeNote S i l) (enumerate 0 (String_split (CHR 0x0A) body)))"
proof -
  have rows: "\<forall>i < length (process S text).
      id' (snd (process S text ! i)) = Fin (real (i + 1)) \<and>
      end' (snd (process S text ! i)) =
        S (jsmul (Number (element (String_split (CHR '','')
                                     (String_split (CHR 0x0A) text ! (i + 1))) 5))
                 (Fin 1000)) \<and>
      fst (process S text ! i) = Number (Some (end' (snd (process S text ! i))))"
    by (simp add: process_nth makeNote_id makeNote_end)
  have hdr: "process S (header @ CHR 0x0A # body) = process S (CHR 0x0A # body) \<and>
      map snd (process S (header @ CHR 0x0A # body)) =
        map (\<lambda>(i, l). makeNote S i l) (enumerate 0 (String_split (CHR 0x0A) body))"
    if "CHR 0x0A \<notin> set header"
  proof -
    have a: "drop 1 (String_split (CHR 0x0A) (header @ CHR 0x0A # body))
        = String_split (CHR 0x0A) body"
      using that by (simp add: String_split_header)
    have b: "drop 1 (String_split (CHR 0x0A) (CHR 0x0A # body)) = String_split (CHR 0x0A) body"
      by simp
    show ?thesis
      unfolding process_def Let_def a b by (simp add: case_prod_unfold comp_def)
  qed
  show ?thesis
    using rows hdr process_length[of S "text"] by blast
qed

theorem process_rows_witness:
  "0 < length (process sampleToString sampleChart) \<and>
   1 < length (process sampleToString sampleChart) \<and>
   CHR 0x0A \<notin> set ''user_played,instrument_name,velocity,pitch,start,end'' \<and>
   length (process sampleToString sampleChart) = 2 \<and>
   id' (snd (process sampleToString sampleChart ! 0)) = Fin 1 \<and>
   end' (snd (process sampleToString sampleChart ! 0)) = ''1500'' \<and>
   id' (snd (process sampleToString sampleChart ! 1)) = Fin 2 \<and>
   end' (snd (process sampleToString sampleChart ! 1)) = ''2000''"
proof -
  have split: "String_split (CHR 0x0A) sampleChart =
     [''user_played,instrument_name,velocity,pitch,start,end'',
      ''True,piano,80,60,0.5,1.5'', ''False,violin,70,61,1,2'']"
    by (simp add: sampleChart_def)
  have len: "length (process sampleToString sampleChart) = 2"
    by (simp add: process_length split)
  have h: "CHR 0x0A \<notin> set ''user_played,instrument_name,velocity,pitch,start,end''"
    by simp
  have e0: "sampleToString (jsmul (Number (element (String_split (CHR '','')
             (String_split (CHR 0x0A) sampleChart ! (0 + 1))) 5)) (Fin 1000)) = ''1500''"
    by (simp add: split element_def number_defs jsmul_def sampleToString_def)
  have e1: "sampleToString (jsmul (Number (element (String_split (CHR '','')
             (String_split (CHR 0x0A) sampleChart ! (1 + 1))) 5)) (Fin 1000)) = ''2000''"
    by (simp add: split element_def number_defs jsmul_def sampleToString_def)
  from process_rows[of sampleToString sampleChart]
  have "\<forall>i < length (process sampleToString sampleChart).
      id' (snd (process sampleToString sampleChart ! i)) = Fin (real (i + 1)) \<and>
      end' (snd (process sampleToString sampleChart ! i)) =
        sampleToString (jsmul (Number (element (String_split (CHR '','')
                                     (String_split (CHR 0x0A) sampleChart ! (i + 1))) 5))
                 (Fin 1000))"
    by blast
  then have "id' (snd (process sampleToString sampleChart ! 0)) = Fin 1"
    and "end' (snd (process sampleToString sampleChart ! 0)) = ''1500''"
    and "id' (snd (process sampleToString sampleChart ! 1)) = Fin 2"
    and "end' (snd (process sampleToString sampleChart ! 1)) = ''2000''"
    using len e0 e1 by auto
  then show ?thesis
    using len h by simp
qed

section \<open>The colour of a pitch\<close>

text \<open>
  Claim C10. \<open>pitchToColor\<close> returns one of the four gradients for every argument,
  and the same one for two arguments with the same \<open>Number(pitch) % 4\<close>: the green
  one where that is a zero, the red one where it is 1, the blue one where it is 2,
  and the yellow one in every other case, \<open>NaN\<close> included.
\<close>

theorem pitchToColor_cases:
  "pitchToColor p \<in> {''url(#greenGradient)'', ''url(#redGradient)'', ''url(#blueGradient)'',
                     ''url(#yellowGradient)''} \<and>
   (jsrem (Number p) (Fin 4) = jsrem (Number q) (Fin 4) \<longrightarrow> pitchToColor p = pitchToColor q) \<and>
   (jsrem (Number p) (Fin 4) \<in> {Fin 0, NegZero} \<longrightarrow> pitchToColor p = ''url(#greenGradient)'') \<and>
   (jsrem (Number p) (Fin 4) = Fin 1 \<longrightarrow> pitchToColor p = ''url(#redGradient)'') \<and>
   (jsrem (Number p) (Fin 4) = Fin 2 \<longrightarrow> pitchToColor p = ''url(#blueGradient)'') \<and>
   (jsrem (Number p) (Fin 4) \<notin> {Fin 0, NegZero, Fin 1, Fin 2} \<longrightarrow>
      pitchToColor p = ''url(#yellowGradient)'')"
proof -
  have z: "strictEq v (Fin 0) = (v \<in> {Fin 0, NegZero})" for v
    by (cases v) (auto simp: strictEq_def)
  have k: "r \<noteq> 0 \<Longrightarrow> strictEq v (Fin r) = (v = Fin r)" for v r
    by (cases v) (auto simp: strictEq_def)
  show ?thesis
    by (auto simp: pitchToColor_def Let_def z k)
qed

lemma rem_8: "jsrem (Number (Some ''8'')) (Fin 4) = Fin 0"
  by (simp add: number_defs jsrem_def trunc_def signedZero_def)
lemma rem_m4: "jsrem (Number (Some ''-4'')) (Fin 4) = NegZero"
  by (simp add: number_defs jsrem_def trunc_def signedZero_def)
lemma rem_5: "jsrem (Number (Some ''5'')) (Fin 4) = Fin 1"
  by (simp add: number_defs jsrem_def trunc_def signedZero_def)
lemma rem_9: "jsrem (Number (Some ''9'')) (Fin 4) = Fin 1"
  by (simp add: number_defs jsrem_def trunc_def signedZero_def)
lemma rem_6: "jsrem (Number (Some ''6'')) (Fin 4) = Fin 2"
  by (simp add: number_defs jsrem_def trunc_def signedZero_def)
lemma rem_7: "jsrem (Number (Some ''7'')) (Fin 4) = Fin 3"
  by (simp add: number_defs jsrem_def trunc_def signedZero_def)
lemma rem_m1: "jsrem (Number (Some ''-1'')) (Fin 4) = Fin (- 1)"
  by (simp add: number_defs jsrem_def trunc_def signedZero_def ceiling_def)
lemma rem_25: "jsrem (Number (Some ''2.5'')) (Fin 4) = Fin (5 / 2)"
  by (simp add: number_defs jsrem_def trunc_def signedZero_def)
lemma rem_abc: "jsrem (Number (Some ''abc'')) (Fin 4) = NaN"
  by (simp add: number_defs jsrem_def trunc_def signedZero_def)
lemma rem_undefined: "jsrem (Number None) (Fin 4) = NaN"
  by (simp add: number_defs jsrem_def trunc_def signedZero_def)

theorem pitchToColor_cases_witness:
  "jsrem (Number (Some ''5'')) (Fin 4) = jsrem (Number (Some ''9'')) (Fin 4) \<and>
   pitchToColor (Some ''5'') = pitchToColor (Some ''9'') \<and>
   pitchToColor (Some ''8'') = ''url(#greenGradient)'' \<and>
   pitchToColor (Some ''-4'') = ''url(#greenGradient)'' \<and>
   pitchToColor (Some ''5'') = ''url(#redGradient)'' \<and>
   pitchToColor (Some ''6'') = ''url(#blueGradient)'' \<and>
   pitchToColor (Some ''7'') = ''url(#yellowGradient)'' \<and>
   pitchToColor (Some ''-1'') = ''url(#yellowGradient)'' \<and>
   pitchToColor (Some ''2.5'') = ''url(#yellowGradient)'' \<and>
   pitchToColor (Some ''abc'') = ''url(#yellowGradient)'' \<and>
   pitchToColor None = ''url(#yellowGradient)''"
proof -
  have same: "jsrem (Number (Some ''5'')) (Fin 4) = jsrem (Number (Some ''9'')) (Fin 4)"
    by (simp only: rem_5 rem_9)
  have c59: "pitchToColor (Some ''5'') = pitchToColor (Some ''9'')"
    using pitchToColor_cases[of "Some ''5''" "Some ''9''"] same by blast
  have c8: "pitchToColor (Some ''8'') = ''url(#greenGradient)''"
    using pitchToColor_cases[of "Some ''8''" None] by (simp add: rem_8)
  have cm4: "pitchToColor (Some ''-4'') = ''url(#greenGradient)''"
    using pitchToColor_cases[of "Some ''-4''" None] by (simp add: rem_m4)
  have c5: "pitchToColor (Some ''5'') = ''url(#redGradient)''"
    using pitchToColor_cases[of "Some ''5''" None] by (simp add: rem_5)
  have c6: "pitchToColor (Some ''6'') = ''url(#blueGradient)''"
    using pitchToColor_cases[of "Some ''6''" None] by (simp add: rem_6)
  have c7: "pitchToColor (Some ''7'') = ''url(#yellowGradient)''"
    using pitchToColor_cases[of "Some ''7''" None] by (simp add: rem_7)
  have cm1: "pitchToColor (Some ''-1'') = ''url(#yellowGradient)''"
    using pitchToColor_cases[of "Some ''-1''" None] by (simp add: rem_m1)
  have c25: "pitchToColor (Some ''2.5'') = ''url(#yellowGradient)''"
    using pitchToColor_cases[of "Some ''2.5''" None] by (simp add: rem_25)
  have cabc: "pitchToColor (Some ''abc'') = ''url(#yellowGradient)''"
    using pitchToColor_cases[of "Some ''abc''" None] by (simp add: rem_abc)
  have cu: "pitchToColor None = ''url(#yellowGradient)''"
    using pitchToColor_cases[of None None] by (simp add: rem_undefined)
  show ?thesis
    by (intro conjI same c59 c8 cm4 c5 c6 c7 cm1 c25 cabc cu)
qed

end
